theory Spec2Isabelle
  imports Main
begin

section \<open>Operand model (filter.ts, lines 37-87)\<close>

text \<open>
  The operator tags of the \<^verbatim>\<open>const enum Operator\<close>, in the order of the source.
\<close>

datatype Operator = AND | OR | EQ | NE | GT | GTE | LT | LTE | IN | NIN | NOT

text \<open>
  The payload of a \<^verbatim>\<open>Value\<close>:
  \<^verbatim>\<open>number | string | boolean | number[] | string[] | boolean[]\<close>.
  Numbers are modelled as integers: the integer-valued doubles of magnitude below
  \<open>10\<^sup>2\<^sup>1\<close>, which print in plain decimal notation. Fractions, NaN and the
  infinities are outside the model. The static element type of an array is erased at
  run time, so an array is a list of scalars.
\<close>

datatype scalar = Num int | Str string | Bool bool

datatype payload = Single scalar | Array "scalar list"

text \<open>
  \<^verbatim>\<open>type Operand = Key | Value | Expression | Group\<close>. The classes are the
  constructors of one datatype, as the objects are at run time: the casts
  \<^verbatim>\<open>as Expression\<close> of the source check nothing, so a \<^verbatim>\<open>Group\<close> holds whatever
  operand it was given. The optional \<^verbatim>\<open>right\<close> of an \<^verbatim>\<open>Expression\<close> is an option
  (\<open>None\<close> is \<^verbatim>\<open>undefined\<close>).
\<close>

datatype Operand =
    Key string
  | Value payload
  | Expression Operator Operand "Operand option"
  | Group Operand

section \<open>FilterExpressionBuilder (filter.ts, lines 116-202)\<close>

text \<open>
  The condition of \<^verbatim>\<open>value ? new Value(value) : undefined\<close>: JavaScript's truthiness.
  Zero, the empty string and \<^verbatim>\<open>false\<close> are falsy; every array is truthy, the empty
  one too. The parameter types of the methods are erased at run time, so each method
  takes any payload. The methods \<^verbatim>\<open>eq\<close>, \<^verbatim>\<open>and\<close>, \<^verbatim>\<open>or\<close>, \<^verbatim>\<open>in\<close>, \<^verbatim>\<open>group\<close> and
  \<^verbatim>\<open>not\<close> carry the suffix \<open>_b\<close>, their names being taken in HOL.
\<close>

fun truthy :: "payload \<Rightarrow> bool" where
  "truthy (Single (Num n)) = (n \<noteq> 0)"
| "truthy (Single (Str s)) = (s \<noteq> [])"
| "truthy (Single (Bool b)) = b"
| "truthy (Array xs) = True"

definition eq_b :: "string \<Rightarrow> payload \<Rightarrow> Operand" where
  "eq_b key v = Expression EQ (Key key) (if truthy v then Some (Value v) else None)"

definition ne :: "string \<Rightarrow> payload \<Rightarrow> Operand" where
  "ne key v = Expression NE (Key key) (if truthy v then Some (Value v) else None)"

definition gt :: "string \<Rightarrow> payload \<Rightarrow> Operand" where
  "gt key v = Expression GT (Key key) (if truthy v then Some (Value v) else None)"

definition gte :: "string \<Rightarrow> payload \<Rightarrow> Operand" where
  "gte key v = Expression GTE (Key key) (if truthy v then Some (Value v) else None)"

definition lt :: "string \<Rightarrow> payload \<Rightarrow> Operand" where
  "lt key v = Expression LT (Key key) (if truthy v then Some (Value v) else None)"

definition lte :: "string \<Rightarrow> payload \<Rightarrow> Operand" where
  "lte key v = Expression LTE (Key key) (if truthy v then Some (Value v) else None)"

definition and_b :: "Operand \<Rightarrow> Operand \<Rightarrow> Operand" where
  "and_b l r = Expression AND l (Some r)"

definition or_b :: "Operand \<Rightarrow> Operand \<Rightarrow> Operand" where
  "or_b l r = Expression OR l (Some r)"

definition in_b :: "string \<Rightarrow> payload \<Rightarrow> Operand" where
  "in_b key vs = Expression IN (Key key) (if truthy vs then Some (Value vs) else None)"

definition nin :: "string \<Rightarrow> payload \<Rightarrow> Operand" where
  "nin key vs = Expression NIN (Key key) (if truthy vs then Some (Value vs) else None)"

definition group_b :: "Operand \<Rightarrow> Operand" where
  "group_b content = Group content"

definition not_b :: "Operand \<Rightarrow> Operand" where
  "not_b content = Expression NOT content None"

section \<open>StringBuilder (filter.ts, lines 207-217)\<close>

record StringBuilder =
  buffer :: "string list"

definition newStringBuilder :: StringBuilder where
  "newStringBuilder = \<lparr>buffer = []\<rparr>"

definition append_sb :: "StringBuilder \<Rightarrow> string \<Rightarrow> StringBuilder" where
  "append_sb context str = context\<lparr>buffer := buffer context @ [str]\<rparr>"

definition toString :: "StringBuilder \<Rightarrow> string" where
  "toString context = concat (buffer context)"

section \<open>Errors\<close>

text \<open>
  Every \<^verbatim>\<open>throw\<close> of the source, one constructor for each message:
  \<^item> \<open>UnsupportedExpressionType\<close>: "Unsupported expression type: ..." (symbol lookup);
  \<^item> \<open>MalformedExpression\<close>: "Non AND/OR expression must have Value right argument!";
  \<^item> \<open>UnexpectedOperandType\<close>: "Unexpected operand type";
  \<^item> \<open>CannotNegateOperand\<close>: "Cannot negate operand of type: ...";
  \<^item> \<open>MustBeImplemented\<close>: "must be implemented in derived class";
  \<^item> \<open>TypeError\<close>: the run-time error of reading a property of \<^verbatim>\<open>undefined\<close>.
  The \<^verbatim>\<open>default\<close> branch of the switch in \<^verbatim>\<open>negateOperand\<close> has no tag left to
  reach it, the enum having these eleven tags only.
\<close>

datatype error =
    UnsupportedExpressionType
  | MalformedExpression
  | UnexpectedOperandType
  | CannotNegateOperand
  | MustBeImplemented
  | TypeError

section \<open>Negation (filter.ts, lines 274-286 and 409-454)\<close>

fun TYPE_NEGATION_MAP :: "Operator \<Rightarrow> Operator" where
  "TYPE_NEGATION_MAP AND = OR"
| "TYPE_NEGATION_MAP OR = AND"
| "TYPE_NEGATION_MAP EQ = NE"
| "TYPE_NEGATION_MAP NE = EQ"
| "TYPE_NEGATION_MAP GT = LTE"
| "TYPE_NEGATION_MAP GTE = LT"
| "TYPE_NEGATION_MAP LT = GTE"
| "TYPE_NEGATION_MAP LTE = GT"
| "TYPE_NEGATION_MAP IN = NIN"
| "TYPE_NEGATION_MAP NIN = IN"
| "TYPE_NEGATION_MAP NOT = NOT"

text \<open>
  \<^verbatim>\<open>negateOperand\<close>. A group negates its content and drops one group level of the
  result; \<^verbatim>\<open>NOT\<close> negates its left operand; \<^verbatim>\<open>AND\<close> and \<^verbatim>\<open>OR\<close> negate the left
  operand, then the right one (an absent right operand is neither a group nor an
  expression, so it raises like a key or a value); a comparison keeps both operands
  and changes its tag; a key or a value raises.
\<close>

fun negateOperand :: "Operand \<Rightarrow> error + Operand" where
  "negateOperand (Group content) =
     (case negateOperand content of
        Inl e \<Rightarrow> Inl e
      | Inr inEx \<Rightarrow> Inr (Group (case inEx of Group c \<Rightarrow> c | _ \<Rightarrow> inEx)))"
| "negateOperand (Expression ty l r) =
     (if ty = NOT then negateOperand l
      else if ty = AND \<or> ty = OR then
        (case negateOperand l of
           Inl e \<Rightarrow> Inl e
         | Inr l' \<Rightarrow>
             (case (case r of None \<Rightarrow> Inl CannotNegateOperand
                            | Some x \<Rightarrow> negateOperand x) of
                Inl e \<Rightarrow> Inl e
              | Inr r' \<Rightarrow> Inr (Expression (TYPE_NEGATION_MAP ty) l' (Some r'))))
      else Inr (Expression (TYPE_NEGATION_MAP ty) l r))"
| "negateOperand (Key k) = Inl CannotNegateOperand"
| "negateOperand (Value v) = Inl CannotNegateOperand"

text \<open>
  Measures for the termination of the conversion walk: the number of nodes of an
  operand, and whether it is a \<^verbatim>\<open>NOT\<close> expression.
\<close>

fun nodes :: "Operand \<Rightarrow> nat" where
  "nodes (Key k) = 1"
| "nodes (Value v) = 1"
| "nodes (Expression ty l r) = Suc (nodes l + (case r of None \<Rightarrow> 0 | Some x \<Rightarrow> nodes x))"
| "nodes (Group content) = Suc (nodes content)"

fun isNot :: "Operand \<Rightarrow> bool" where
  "isNot (Expression ty l r) = (ty = NOT)"
| "isNot _ = False"

lemma negateOperand_nodes:
  "negateOperand t = Inr t' \<Longrightarrow> nodes t' \<le> nodes t \<and> \<not> isNot t'"
proof (induction t arbitrary: t' rule: negateOperand.induct)
  case (1 content)
  then obtain inEx where n: "negateOperand content = Inr inEx"
    and t': "t' = Group (case inEx of Group c \<Rightarrow> c | _ \<Rightarrow> inEx)"
    by (auto split: sum.splits)
  from "1.IH" [OF n] have "nodes inEx \<le> nodes content" by simp
  moreover have "nodes (case inEx of Group c \<Rightarrow> c | _ \<Rightarrow> inEx) \<le> nodes inEx"
    by (cases inEx) simp_all
  ultimately show ?case using t' by simp
next
  case (2 ty l r)
  show ?case
  proof (cases "ty = NOT")
    case True
    with "2.prems" have "negateOperand l = Inr t'" by simp
    from "2.IH"(1) [OF True this] show ?thesis by simp
  next
    case notNot: False
    show ?thesis
    proof (cases "ty = AND \<or> ty = OR")
      case True
      with notNot "2.prems" obtain l' x r' where l: "negateOperand l = Inr l'"
        and r: "r = Some x" and x: "negateOperand x = Inr r'"
        and t': "t' = Expression (TYPE_NEGATION_MAP ty) l' (Some r')"
        by (auto split: sum.splits option.splits)
      from "2.IH"(2) [OF notNot True l] have "nodes l' \<le> nodes l" by simp
      moreover from "2.IH"(3) [OF notNot True l r x] have "nodes r' \<le> nodes x" by simp
      ultimately show ?thesis using t' r True by auto
    next
      case False
      with notNot "2.prems" have "t' = Expression (TYPE_NEGATION_MAP ty) l r" by simp
      with notNot False show ?thesis by (cases ty) simp_all
    qed
  qed
qed simp_all

section \<open>BaseFilterExpressionConverter and the reference dialect\<close>

text \<open>
  The dynamic class of \<^verbatim>\<open>this\<close>: the base class of filter.ts (lines 300-577) or the
  dialect \<^verbatim>\<open>TestFilterExpressionConverter\<close> of tests/filter.test.ts (lines 13-50),
  which overrides \<^verbatim>\<open>convertExpressionToContext\<close>, \<^verbatim>\<open>convertKeyToContext\<close>,
  \<^verbatim>\<open>writeValueRangeStart\<close>, \<^verbatim>\<open>writeValueRangeEnd\<close>, \<^verbatim>\<open>writeGroupStart\<close> and
  \<^verbatim>\<open>writeGroupEnd\<close>. An overridable method takes the class and selects its body by it.
  A parameter of class \<^verbatim>\<open>Key\<close>, \<^verbatim>\<open>Value\<close>, \<^verbatim>\<open>Group\<close> or \<^verbatim>\<open>Expression\<close> is
  passed as the fields of the object.
\<close>

datatype converter = BaseFilterExpressionConverter | TestFilterExpressionConverter

text \<open>The \<^verbatim>\<open>symbolMap\<close> of \<^verbatim>\<open>convertSymbolToContext\<close>, entry by entry.\<close>

fun symbolMap :: "Operator \<Rightarrow> string option" where
  "symbolMap AND = Some '' AND ''"
| "symbolMap OR = Some '' OR ''"
| "symbolMap EQ = Some '' = ''"
| "symbolMap NE = Some '' != ''"
| "symbolMap LT = Some '' < ''"
| "symbolMap LTE = Some '' <= ''"
| "symbolMap GT = Some '' > ''"
| "symbolMap GTE = Some '' >= ''"
| "symbolMap IN = Some '' IN ''"
| "symbolMap NOT = Some '' NOT IN ''"
| "symbolMap NIN = Some '' NOT IN ''"

text \<open>
  \<^verbatim>\<open>context.append(symbolMap[exp.type] || (() => { throw ... })())\<close>: the error is
  raised when the table has no entry for the tag or the entry is the empty string.
\<close>

definition convertSymbolToContext ::
  "converter \<Rightarrow> Operator \<Rightarrow> Operand \<Rightarrow> Operand option \<Rightarrow> StringBuilder
    \<Rightarrow> error + StringBuilder" where
  "convertSymbolToContext this ty l r context =
     (case symbolMap ty of
        None \<Rightarrow> Inl UnsupportedExpressionType
      | Some s \<Rightarrow> if s \<noteq> [] then Inr (append_sb context s) else Inl UnsupportedExpressionType)"

fun convertKeyToContext :: "converter \<Rightarrow> string \<Rightarrow> StringBuilder \<Rightarrow> error + StringBuilder" where
  "convertKeyToContext BaseFilterExpressionConverter key context = Inl MustBeImplemented"
| "convertKeyToContext TestFilterExpressionConverter key context =
     Inr (append_sb context ([CHR 0x27] @ ''$.'' @ key @ [CHR 0x27]))"

text \<open>
  \<^verbatim>\<open>Number.prototype.toString\<close> on an integer and \<^verbatim>\<open>Boolean.prototype.toString\<close>.
\<close>

fun natToString :: "nat \<Rightarrow> string" where
  "natToString n =
     (if n < 10 then [''0123456789'' ! n]
      else natToString (n div 10) @ [''0123456789'' ! (n mod 10)])"

declare natToString.simps [simp del]

definition numberToString :: "int \<Rightarrow> string" where
  "numberToString n = (if n < 0 then ''-'' @ natToString (nat (- n)) else natToString (nat n))"

definition booleanToString :: "bool \<Rightarrow> string" where
  "booleanToString b = (if b then ''true'' else ''false'')"

fun convertSingleValueToContext :: "converter \<Rightarrow> scalar \<Rightarrow> StringBuilder \<Rightarrow> StringBuilder" where
  "convertSingleValueToContext this (Str s) context =
     append_sb context ([CHR 0x27] @ s @ [CHR 0x27])"
| "convertSingleValueToContext this (Num n) context = append_sb context (numberToString n)"
| "convertSingleValueToContext this (Bool b) context = append_sb context (booleanToString b)"

fun writeGroupStart :: "converter \<Rightarrow> Operand \<Rightarrow> StringBuilder \<Rightarrow> StringBuilder" where
  "writeGroupStart BaseFilterExpressionConverter content context = context"
| "writeGroupStart TestFilterExpressionConverter content context = append_sb context ''(''"

fun writeGroupEnd :: "converter \<Rightarrow> Operand \<Rightarrow> StringBuilder \<Rightarrow> StringBuilder" where
  "writeGroupEnd BaseFilterExpressionConverter content context = context"
| "writeGroupEnd TestFilterExpressionConverter content context = append_sb context '')''"

fun writeValueRangeStart :: "converter \<Rightarrow> payload \<Rightarrow> StringBuilder \<Rightarrow> StringBuilder" where
  "writeValueRangeStart BaseFilterExpressionConverter listValue context = append_sb context ''[''"
| "writeValueRangeStart TestFilterExpressionConverter listValue context = append_sb context ''[''"

fun writeValueRangeEnd :: "converter \<Rightarrow> payload \<Rightarrow> StringBuilder \<Rightarrow> StringBuilder" where
  "writeValueRangeEnd BaseFilterExpressionConverter listValue context = append_sb context '']''"
| "writeValueRangeEnd TestFilterExpressionConverter listValue context = append_sb context '']''"

definition writeValueRangeSeparator :: "converter \<Rightarrow> payload \<Rightarrow> StringBuilder \<Rightarrow> StringBuilder" where
  "writeValueRangeSeparator this listValue context = append_sb context '',''"

text \<open>
  The \<^verbatim>\<open>for\<close> loop of \<^verbatim>\<open>convertValueToContext\<close>, from index \<open>i\<close> on. The test
  \<^verbatim>\<open>i < filterValue.value.length - 1\<close> is written \<open>Suc i < length xs\<close>, the
  subtraction of the source being one of signed numbers.
\<close>

function convertValueLoop ::
  "converter \<Rightarrow> payload \<Rightarrow> scalar list \<Rightarrow> nat \<Rightarrow> StringBuilder \<Rightarrow> StringBuilder" where
  "convertValueLoop this listValue xs i context =
     (if i < length xs then
        (let context1 = convertSingleValueToContext this (xs ! i) context;
             context2 = (if Suc i < length xs
                         then writeValueRangeSeparator this listValue context1
                         else context1)
         in convertValueLoop this listValue xs (i + 1) context2)
      else context)"
  by pat_completeness auto
termination
  by (relation "measure (\<lambda>(this, listValue, xs, i, context). length xs - i)") auto

declare convertValueLoop.simps [simp del]

fun convertValueToContext :: "converter \<Rightarrow> payload \<Rightarrow> StringBuilder \<Rightarrow> StringBuilder" where
  "convertValueToContext this (Array xs) context =
     writeValueRangeEnd this (Array xs)
       (convertValueLoop this (Array xs) xs 0 (writeValueRangeStart this (Array xs) context))"
| "convertValueToContext this (Single v) context = convertSingleValueToContext this v context"

text \<open>\<^verbatim>\<open>exp.right instanceof Value\<close>, false for an absent operand.\<close>

fun instanceofValue :: "Operand option \<Rightarrow> bool" where
  "instanceofValue (Some (Value v)) = True"
| "instanceofValue _ = False"

text \<open>
  The walk. \<^verbatim>\<open>convertOperandToContext\<close> dispatches on the class of the operand (the
  four classes have an entry each in \<^verbatim>\<open>conversionMap\<close>); an expression is checked,
  then handed to \<^verbatim>\<open>convertNotExpressionToContext\<close> or to the hook
  \<^verbatim>\<open>convertExpressionToContext\<close>. The hook of the base class raises; the one of the
  reference dialect writes the left operand, the symbol and the right operand, and
  its \<^verbatim>\<open>expression.right!\<close> hands an absent operand on to
  \<^verbatim>\<open>convertOperandToContext\<close>, where reading \<^verbatim>\<open>operand.constructor\<close> is a TypeError.
  A call that raises returns the error alone: what it wrote to the buffer before is
  dropped, as \<^verbatim>\<open>convertOperand\<close> drops its buffer when the walk raises.
\<close>

function
  convertOperandToContext ::
    "converter \<Rightarrow> Operand \<Rightarrow> StringBuilder \<Rightarrow> error + StringBuilder" and
  convertNotExpressionToContext ::
    "converter \<Rightarrow> Operator \<Rightarrow> Operand \<Rightarrow> Operand option \<Rightarrow> StringBuilder
      \<Rightarrow> error + StringBuilder" and
  convertExpressionToContext ::
    "converter \<Rightarrow> Operator \<Rightarrow> Operand \<Rightarrow> Operand option \<Rightarrow> StringBuilder
      \<Rightarrow> error + StringBuilder" and
  convertGroupToContext ::
    "converter \<Rightarrow> Operand \<Rightarrow> StringBuilder \<Rightarrow> error + StringBuilder"
where
  "convertOperandToContext this (Group content) context =
     convertGroupToContext this content context"
| "convertOperandToContext this (Key key) context = convertKeyToContext this key context"
| "convertOperandToContext this (Value v) context = Inr (convertValueToContext this v context)"
| "convertOperandToContext this (Expression ty l r) context =
     (if ty \<noteq> NOT \<and> ty \<noteq> AND \<and> ty \<noteq> OR \<and> \<not> instanceofValue r
      then Inl MalformedExpression
      else if ty = NOT then convertNotExpressionToContext this ty l r context
      else convertExpressionToContext this ty l r context)"
| "convertNotExpressionToContext this ty l r context =
     (case negateOperand (Expression ty l r) of
        Inl e \<Rightarrow> Inl e
      | Inr negated \<Rightarrow> convertOperandToContext this negated context)"
| "convertExpressionToContext BaseFilterExpressionConverter ty l r context =
     Inl MustBeImplemented"
| "convertExpressionToContext TestFilterExpressionConverter ty l r context =
     (case convertOperandToContext TestFilterExpressionConverter l context of
        Inl e \<Rightarrow> Inl e
      | Inr context1 \<Rightarrow>
          (case convertSymbolToContext TestFilterExpressionConverter ty l r context1 of
             Inl e \<Rightarrow> Inl e
           | Inr context2 \<Rightarrow>
               (case r of
                  None \<Rightarrow> Inl TypeError
                | Some x \<Rightarrow> convertOperandToContext TestFilterExpressionConverter x context2)))"
| "convertGroupToContext this content context =
     (case convertOperandToContext this content (writeGroupStart this content context) of
        Inl e \<Rightarrow> Inl e
      | Inr context1 \<Rightarrow> Inr (writeGroupEnd this content context1))"
  by pat_completeness auto
termination
proof (relation "measure (\<lambda>x. case x of
    Inl (Inl (this, t, context)) \<Rightarrow> 4 * nodes t + (if isNot t then 3 else 1)
  | Inl (Inr (this, ty, l, r, context)) \<Rightarrow> 4 * nodes (Expression ty l r) + 2
  | Inr (Inl (this, ty, l, r, context)) \<Rightarrow> 4 * nodes (Expression ty l r)
  | Inr (Inr (this, content, context)) \<Rightarrow> 4 * nodes (Group content))", goal_cases)
  case (5 cv ty l r ctx negated)
  from negateOperand_nodes [OF this]
  show ?case by simp
qed (auto split: option.splits)

definition convertOperand :: "converter \<Rightarrow> Operand \<Rightarrow> error + string" where
  "convertOperand this operand =
     (case convertOperandToContext this operand newStringBuilder of
        Inl e \<Rightarrow> Inl e
      | Inr context \<Rightarrow> Inr (toString context))"

definition convertExpression :: "converter \<Rightarrow> Operand \<Rightarrow> error + string" where
  "convertExpression this expression = convertOperand this expression"

section \<open>Predicates and functions of the statements\<close>

text \<open>The class tests \<^verbatim>\<open>instanceof Group\<close> and \<^verbatim>\<open>instanceof Key\<close>.\<close>

fun isGroup :: "Operand \<Rightarrow> bool" where
  "isGroup (Group c) = True"
| "isGroup _ = False"

fun isKey :: "Operand \<Rightarrow> bool" where
  "isKey (Key k) = True"
| "isKey _ = False"

text \<open>
  The trees built from \<^verbatim>\<open>AND\<close> and \<^verbatim>\<open>OR\<close> over leaf comparisons: no \<^verbatim>\<open>NOT\<close>, no
  group, both operands of a combinator present, and every comparison with a key on
  its left and a value on its right.
\<close>

fun andOrTree :: "Operand \<Rightarrow> bool" where
  "andOrTree (Expression ty l r) =
     (if ty = AND \<or> ty = OR
      then andOrTree l \<and> (case r of None \<Rightarrow> False | Some x \<Rightarrow> andOrTree x)
      else if ty = NOT then False
      else isKey l \<and> instanceofValue r)"
| "andOrTree _ = False"

text \<open>
  Negation repeated \<open>n\<close> times, each round on the result of the one before; an error
  of a round ends the repetition.
\<close>

fun negateRepeatedly :: "nat \<Rightarrow> Operand \<Rightarrow> error + Operand" where
  "negateRepeatedly 0 t = Inr t"
| "negateRepeatedly (Suc n) t =
     (case negateOperand t of Inl e \<Rightarrow> Inl e | Inr t' \<Rightarrow> negateRepeatedly n t')"

text \<open>
  The list rendering as the specification words it: the elements in their order, with
  the separator between two consecutive ones and not after the last. \<open>scalarText\<close> is
  the text that \<^verbatim>\<open>convertSingleValueToContext\<close> writes for one element.
\<close>

fun separated :: "'a \<Rightarrow> 'a list \<Rightarrow> 'a list" where
  "separated sep [] = []"
| "separated sep [x] = [x]"
| "separated sep (x # y # ys) = x # sep # separated sep (y # ys)"

definition scalarText :: "converter \<Rightarrow> scalar \<Rightarrow> string" where
  "scalarText this x = toString (convertSingleValueToContext this x newStringBuilder)"

section \<open>Auxiliary facts\<close>

lemmas builder_defs = eq_b_def ne_def gt_def gte_def lt_def lte_def in_b_def nin_def
  and_b_def or_b_def not_b_def group_b_def

lemmas run_defs = convertExpression_def convertOperand_def convertSymbolToContext_def
  append_sb_def newStringBuilder_def toString_def writeValueRangeSeparator_def

lemma TYPE_NEGATION_MAP_involution: "TYPE_NEGATION_MAP (TYPE_NEGATION_MAP ty) = ty"
  by (cases ty) simp_all

lemma TYPE_NEGATION_MAP_class:
  "(TYPE_NEGATION_MAP ty = NOT) = (ty = NOT)"
  "(TYPE_NEGATION_MAP ty = AND) = (ty = OR)"
  "(TYPE_NEGATION_MAP ty = OR) = (ty = AND)"
  by (cases ty; simp)+

text \<open>A group that \<^verbatim>\<open>negateOperand\<close> returns, on any operand, holds no group.\<close>

lemma negateOperand_Group_content:
  "negateOperand t = Inr (Group c) \<Longrightarrow> \<not> isGroup c"
proof (induction t arbitrary: c rule: negateOperand.induct)
  case (1 content)
  then obtain inEx where n: "negateOperand content = Inr inEx"
    and c: "c = (case inEx of Group c' \<Rightarrow> c' | _ \<Rightarrow> inEx)"
    by (auto split: sum.splits)
  show ?case
  proof (cases inEx)
    case (Group c')
    with n c "1.IH" show ?thesis by simp
  qed (simp_all add: c)
next
  case (2 ty l r)
  then show ?case by (auto split: if_splits sum.splits option.splits)
qed simp_all

lemma negateOperand_Group_shape:
  assumes "negateOperand (Group content) = Inr g"
  shows "\<exists>c. g = Group c \<and> \<not> isGroup c"
proof -
  from assms obtain c where g: "g = Group c"
    by (auto split: sum.splits)
  with assms negateOperand_Group_content [of "Group content" c] show ?thesis
    by simp
qed

lemma negateRepeatedly_Group_shape:
  "negateRepeatedly (Suc n) (Group content) = Inr g \<Longrightarrow> \<exists>c. g = Group c \<and> \<not> isGroup c"
proof (induction n arbitrary: content)
  case 0
  then have "negateOperand (Group content) = Inr g"
    by (simp split: sum.splits)
  then show ?case by (rule negateOperand_Group_shape)
next
  case (Suc n)
  from Suc.prems obtain t' where t': "negateOperand (Group content) = Inr t'"
    and rest: "negateRepeatedly (Suc n) t' = Inr g"
    by (cases "negateOperand (Group content)") simp_all
  from negateOperand_Group_shape [OF t'] obtain c where "t' = Group c" by blast
  with rest Suc.IH show ?case by blast
qed

text \<open>
  On a tree of \<^verbatim>\<open>AND\<close> and \<^verbatim>\<open>OR\<close> over leaf comparisons the negation succeeds, gives
  such a tree again, and negating that one gives the first back.
\<close>

lemma negateOperand_andOrTree:
  "andOrTree t \<Longrightarrow> \<exists>t'. negateOperand t = Inr t' \<and> andOrTree t' \<and> negateOperand t' = Inr t"
proof (induction t rule: andOrTree.induct)
  case (1 ty l r)
  show ?case
  proof (cases "ty = AND \<or> ty = OR")
    case True
    with "1.prems" obtain x where r: "r = Some x" and al: "andOrTree l" and ax: "andOrTree x"
      by (auto split: option.splits)
    from "1.IH"(1) [OF True al] obtain l' where
      l': "negateOperand l = Inr l'" "andOrTree l'" "negateOperand l' = Inr l" by blast
    from "1.IH"(2) [OF True r ax] obtain x' where
      x': "negateOperand x = Inr x'" "andOrTree x'" "negateOperand x' = Inr x" by blast
    from True l' x' r show ?thesis by auto
  next
    case False
    with "1.prems" show ?thesis
      by (auto simp add: TYPE_NEGATION_MAP_involution TYPE_NEGATION_MAP_class split: if_splits)
  qed
qed simp_all

lemma separated_Cons:
  "separated sep (x # ys) = (if ys = [] then [x] else x # sep # separated sep ys)"
  by (cases ys) simp_all

lemma convertSingleValueToContext_buffer:
  "buffer (convertSingleValueToContext cv x ctx) = buffer ctx @ [scalarText cv x]"
  by (cases x) (simp_all add: scalarText_def append_sb_def newStringBuilder_def toString_def)

text \<open>The loop invariant: from index \<open>i\<close> on, the loop writes the rest of the list.\<close>

lemma convertValueLoop_buffer:
  "buffer (convertValueLoop cv v xs i ctx)
     = buffer ctx @ separated '','' (map (scalarText cv) (drop i xs))"
proof (induction cv v xs i ctx rule: convertValueLoop.induct)
  case (1 cv v xs i ctx)
  show ?case
  proof (cases "i < length xs")
    case True
    then have d: "drop i xs = xs ! i # drop (Suc i) xs"
      by (simp add: Cons_nth_drop_Suc)
    show ?thesis
      using True "1.IH" [OF True refl refl]
      by (subst convertValueLoop.simps)
         (simp add: d separated_Cons Let_def convertSingleValueToContext_buffer
            writeValueRangeSeparator_def append_sb_def)
  next
    case False
    then show ?thesis by (subst convertValueLoop.simps) simp
  qed
qed

lemma convertValueLoop_empty: "convertValueLoop cv v [] 0 ctx = ctx"
  by (subst convertValueLoop.simps) simp

section \<open>The claims\<close>

text \<open>
  C1. Under the reference dialect, \<^verbatim>\<open>convertExpression\<close> on the tree
  \<^verbatim>\<open>not(and(eq("name","martin"), group(or(eq("firstname","john"), eq("firstname","jack")))))\<close>
  returns exactly the string
  \<^verbatim>\<open>'$.name' != 'martin' OR ('$.firstname' != 'john' AND '$.firstname' != 'jack')\<close>.
\<close>

theorem convertExpression_scenario:
  "convertExpression TestFilterExpressionConverter
     (not_b (and_b (eq_b ''name'' (Single (Str ''martin'')))
        (group_b (or_b (eq_b ''firstname'' (Single (Str ''john'')))
                       (eq_b ''firstname'' (Single (Str ''jack'')))))))
   = Inr '''$.name' != 'martin' OR ('$.firstname' != 'john' AND '$.firstname' != 'jack')''"
  by (simp add: builder_defs run_defs)

text \<open>
  C2, as the specification states it: \<^verbatim>\<open>convertSymbolToContext\<close> on an expression
  with the tag \<^verbatim>\<open>NOT\<close> raises the unsupported-operator error and appends nothing. The
  code does otherwise: the symbol table has the entry \<^verbatim>\<open>" NOT IN "\<close> for \<^verbatim>\<open>NOT\<close>, so on
  the expression \<^verbatim>\<open>not(eq("a", 2015))\<close> and a fresh buffer the call returns the buffer
  holding that token.
\<close>

theorem convertSymbolToContext_NOT_counterexample:
  "convertSymbolToContext BaseFilterExpressionConverter NOT
     (eq_b ''a'' (Single (Num 2015))) None newStringBuilder \<noteq> Inl UnsupportedExpressionType
   \<and> convertSymbolToContext BaseFilterExpressionConverter NOT
     (eq_b ''a'' (Single (Num 2015))) None newStringBuilder = Inr \<lparr>buffer = ['' NOT IN '']\<rparr>"
  by (simp add: run_defs)

text \<open>
  C2, amended: \<^verbatim>\<open>convertSymbolToContext\<close> on an expression with the tag \<^verbatim>\<open>NOT\<close> does
  not fail; it appends the token \<^verbatim>\<open>" NOT IN "\<close>, the one of \<^verbatim>\<open>NIN\<close>, to the buffer. The
  table has a non-empty entry for each of the eleven tags, so the unsupported-operator
  error is raised for none of them.
\<close>

theorem convertSymbolToContext_NOT:
  "convertSymbolToContext cv NOT l r ctx = Inr (append_sb ctx '' NOT IN '')
   \<and> convertSymbolToContext cv NOT l r ctx = convertSymbolToContext cv NIN l r ctx
   \<and> (\<forall>ty. convertSymbolToContext cv ty l r ctx \<noteq> Inl UnsupportedExpressionType)"
proof -
  have "convertSymbolToContext cv ty l r ctx \<noteq> Inl UnsupportedExpressionType" for ty
    by (cases ty) (simp_all add: convertSymbolToContext_def)
  then show ?thesis by (simp add: convertSymbolToContext_def)
qed

text \<open>
  C3. De Morgan push-down: for operands \<open>a\<close> and \<open>b\<close> that \<^verbatim>\<open>negateOperand\<close> rewrites
  to \<open>a'\<close> and \<open>b'\<close>, it rewrites \<^verbatim>\<open>Expression(AND, a, b)\<close> to
  \<^verbatim>\<open>Expression(OR, a', b')\<close> and \<^verbatim>\<open>Expression(OR, a, b)\<close> to \<^verbatim>\<open>Expression(AND, a', b')\<close>,
  and in every dialect \<^verbatim>\<open>not(and(a, b))\<close> renders as \<^verbatim>\<open>or(a', b')\<close> does and
  \<^verbatim>\<open>not(or(a, b))\<close> as \<^verbatim>\<open>and(a', b')\<close> does. When the negation of \<open>a\<close>, or else the
  one of \<open>b\<close>, raises, the negation of the combination raises the same error.
\<close>

theorem negateOperand_de_morgan:
  "(negateOperand a = Inr a' \<and> negateOperand b = Inr b' \<longrightarrow>
      negateOperand (Expression AND a (Some b)) = Inr (Expression OR a' (Some b'))
      \<and> negateOperand (Expression OR a (Some b)) = Inr (Expression AND a' (Some b'))
      \<and> convertExpression cv (not_b (and_b a b)) = convertExpression cv (or_b a' b')
      \<and> convertExpression cv (not_b (or_b a b)) = convertExpression cv (and_b a' b'))
   \<and> (negateOperand a = Inl e \<longrightarrow>
      negateOperand (Expression AND a (Some b)) = Inl e
      \<and> negateOperand (Expression OR a (Some b)) = Inl e)
   \<and> (negateOperand a = Inr a' \<and> negateOperand b = Inl e \<longrightarrow>
      negateOperand (Expression AND a (Some b)) = Inl e
      \<and> negateOperand (Expression OR a (Some b)) = Inl e)"
  by (simp add: builder_defs convertExpression_def convertOperand_def)

theorem negateOperand_de_morgan_witness:
  "negateOperand (eq_b ''name'' (Single (Str ''martin'')))
     = Inr (ne ''name'' (Single (Str ''martin'')))
   \<and> negateOperand (gt ''age'' (Single (Num 18))) = Inr (lte ''age'' (Single (Num 18)))
   \<and> negateOperand (Expression AND (eq_b ''name'' (Single (Str ''martin'')))
         (Some (gt ''age'' (Single (Num 18)))))
     = Inr (Expression OR (ne ''name'' (Single (Str ''martin'')))
         (Some (lte ''age'' (Single (Num 18)))))
   \<and> negateOperand (Expression OR (eq_b ''name'' (Single (Str ''martin'')))
         (Some (gt ''age'' (Single (Num 18)))))
     = Inr (Expression AND (ne ''name'' (Single (Str ''martin'')))
         (Some (lte ''age'' (Single (Num 18)))))
   \<and> negateOperand (Key ''name'') = Inl CannotNegateOperand
   \<and> negateOperand (Expression AND (Key ''name'') (Some (gt ''age'' (Single (Num 18)))))
     = Inl CannotNegateOperand"
  using negateOperand_de_morgan [of "eq_b ''name'' (Single (Str ''martin''))"
      "ne ''name'' (Single (Str ''martin''))" "gt ''age'' (Single (Num 18))"
      "lte ''age'' (Single (Num 18))" TestFilterExpressionConverter CannotNegateOperand]
    negateOperand_de_morgan [of "Key ''name''" "Key ''name''" "gt ''age'' (Single (Num 18))"
      "lte ''age'' (Single (Num 18))" TestFilterExpressionConverter CannotNegateOperand]
  by (simp add: builder_defs)

text \<open>
  C4. For every key \<open>k\<close> and every falsy scalar \<open>v\<close> (the number 0, the empty string or
  \<^verbatim>\<open>false\<close>), each of \<^verbatim>\<open>eq\<close>, \<^verbatim>\<open>ne\<close>, \<^verbatim>\<open>gt\<close>, \<^verbatim>\<open>gte\<close>, \<^verbatim>\<open>lt\<close> and \<^verbatim>\<open>lte\<close> returns an
  expression with no right operand, and converting that expression, in every dialect,
  fails with the malformed-expression error.
\<close>

theorem builder_falsy_value:
  assumes "v \<in> {Single (Num 0), Single (Str ''''), Single (Bool False)}"
  shows "eq_b k v = Expression EQ (Key k) None \<and> ne k v = Expression NE (Key k) None
     \<and> gt k v = Expression GT (Key k) None \<and> gte k v = Expression GTE (Key k) None
     \<and> lt k v = Expression LT (Key k) None \<and> lte k v = Expression LTE (Key k) None
     \<and> convertExpression cv (eq_b k v) = Inl MalformedExpression
     \<and> convertExpression cv (ne k v) = Inl MalformedExpression
     \<and> convertExpression cv (gt k v) = Inl MalformedExpression
     \<and> convertExpression cv (gte k v) = Inl MalformedExpression
     \<and> convertExpression cv (lt k v) = Inl MalformedExpression
     \<and> convertExpression cv (lte k v) = Inl MalformedExpression"
  using assms by (auto simp add: builder_defs convertExpression_def convertOperand_def)

theorem builder_falsy_value_witness:
  "eq_b ''a'' (Single (Num 0)) = Expression EQ (Key ''a'') None
   \<and> convertExpression TestFilterExpressionConverter (eq_b ''a'' (Single (Num 0)))
     = Inl MalformedExpression
   \<and> convertExpression TestFilterExpressionConverter (lte ''a'' (Single (Num 0)))
     = Inl MalformedExpression"
proof -
  have falsy: "Single (Num 0) \<in> {Single (Num 0), Single (Str ''''), Single (Bool False)}"
    by simp
  from builder_falsy_value [OF falsy, of "''a''" TestFilterExpressionConverter]
  show ?thesis by blast
qed

text \<open>
  C5. For every expression whose tag is one of \<^verbatim>\<open>EQ\<close>, \<^verbatim>\<open>NE\<close>, \<^verbatim>\<open>GT\<close>, \<^verbatim>\<open>GTE\<close>, \<^verbatim>\<open>LT\<close>,
  \<^verbatim>\<open>LTE\<close>, \<^verbatim>\<open>IN\<close>, \<^verbatim>\<open>NIN\<close> and whose right operand is not a value (a key, say, or
  absent), \<^verbatim>\<open>convertOperandToContext\<close> fails with the malformed-expression error. The
  check does not fire for the tags \<^verbatim>\<open>NOT\<close>, \<^verbatim>\<open>AND\<close> and \<^verbatim>\<open>OR\<close>: whatever the right
  operand, a \<^verbatim>\<open>NOT\<close> expression goes on to \<^verbatim>\<open>convertNotExpressionToContext\<close> and an
  \<^verbatim>\<open>AND\<close> or \<^verbatim>\<open>OR\<close> expression to \<^verbatim>\<open>convertExpressionToContext\<close>.
\<close>

theorem convertOperandToContext_structural_check:
  "(ty \<in> {EQ, NE, GT, GTE, LT, LTE, IN, NIN} \<and> (\<forall>v. r \<noteq> Some (Value v))
      \<longrightarrow> convertOperandToContext cv (Expression ty l r) ctx = Inl MalformedExpression)
   \<and> (ty = NOT \<longrightarrow> convertOperandToContext cv (Expression ty l r) ctx
          = convertNotExpressionToContext cv ty l r ctx)
   \<and> (ty \<in> {AND, OR} \<longrightarrow> convertOperandToContext cv (Expression ty l r) ctx
          = convertExpressionToContext cv ty l r ctx)"
proof -
  have "\<not> instanceofValue r" if "\<forall>v. r \<noteq> Some (Value v)"
    using that by (cases r rule: instanceofValue.cases) simp_all
  then show ?thesis by auto
qed

theorem convertOperandToContext_structural_check_witness:
  "convertOperandToContext TestFilterExpressionConverter
     (Expression EQ (Key ''a'') (Some (Key ''b''))) newStringBuilder = Inl MalformedExpression
   \<and> convertOperandToContext TestFilterExpressionConverter
     (Expression NIN (Key ''a'') None) newStringBuilder = Inl MalformedExpression
   \<and> convertOperandToContext BaseFilterExpressionConverter
     (Expression AND (Key ''a'') None) newStringBuilder = Inl MustBeImplemented
   \<and> convertOperandToContext TestFilterExpressionConverter
     (Expression NOT (Key ''a'') None) newStringBuilder = Inl CannotNegateOperand"
  using
    convertOperandToContext_structural_check [of EQ "Some (Key ''b'')"
      TestFilterExpressionConverter "Key ''a''" newStringBuilder]
    convertOperandToContext_structural_check [of NIN None
      TestFilterExpressionConverter "Key ''a''" newStringBuilder]
    convertOperandToContext_structural_check [of AND None
      BaseFilterExpressionConverter "Key ''a''" newStringBuilder]
    convertOperandToContext_structural_check [of NOT None
      TestFilterExpressionConverter "Key ''a''" newStringBuilder]
  by simp

text \<open>
  C6. For every leaf comparison (a tag among \<^verbatim>\<open>EQ\<close>, \<^verbatim>\<open>NE\<close>, \<^verbatim>\<open>GT\<close>, \<^verbatim>\<open>GTE\<close>, \<^verbatim>\<open>LT\<close>,
  \<^verbatim>\<open>LTE\<close>, \<^verbatim>\<open>IN\<close>, \<^verbatim>\<open>NIN\<close>, a key on the left, a value on the right),
  \<^verbatim>\<open>negateOperand\<close> returns the comparison with the inverse tag and the same operands,
  and negating that one returns the first: the double negation is the identity.
\<close>

theorem negateOperand_leaf_round_trip:
  assumes "ty \<in> {EQ, NE, GT, GTE, LT, LTE, IN, NIN}"
  shows "negateOperand (Expression ty (Key k) (Some (Value v)))
            = Inr (Expression (TYPE_NEGATION_MAP ty) (Key k) (Some (Value v)))
     \<and> negateOperand (Expression (TYPE_NEGATION_MAP ty) (Key k) (Some (Value v)))
            = Inr (Expression ty (Key k) (Some (Value v)))"
  using assms by auto

theorem negateOperand_leaf_round_trip_witness:
  "negateOperand (Expression GT (Key ''a'') (Some (Value (Single (Num 2015)))))
     = Inr (Expression LTE (Key ''a'') (Some (Value (Single (Num 2015)))))
   \<and> negateOperand (Expression LTE (Key ''a'') (Some (Value (Single (Num 2015)))))
     = Inr (Expression GT (Key ''a'') (Some (Value (Single (Num 2015)))))"
  using negateOperand_leaf_round_trip [of GT "''a''" "Single (Num 2015)"]
  by simp

text \<open>
  C7. Negating a group gives a group whose content is not a group: when the negation
  of the content of the group succeeds with \<open>x\<close>, the negation of the group is a group
  holding \<open>x\<close>, or the content of \<open>x\<close> when \<open>x\<close> is a group, and what it holds is no
  group. Negating a group any number of times over, when every round succeeds, ends
  with a group holding no group. When the negation of the content raises, the negation
  of the group raises the same error.
\<close>

theorem negateOperand_Group_collapse:
  "(negateOperand content = Inr x \<longrightarrow>
      (\<exists>c. negateOperand (Group content) = Inr (Group c) \<and> \<not> isGroup c
         \<and> (x = Group c \<or> x = c)))
   \<and> (negateRepeatedly (Suc n) (Group content) = Inr g \<longrightarrow>
      (\<exists>c. g = Group c \<and> \<not> isGroup c))
   \<and> (negateOperand content = Inl e \<longrightarrow> negateOperand (Group content) = Inl e)"
proof (intro conjI impI)
  assume x: "negateOperand content = Inr x"
  show "\<exists>c. negateOperand (Group content) = Inr (Group c) \<and> \<not> isGroup c
         \<and> (x = Group c \<or> x = c)"
  proof (cases x)
    case (Group c')
    with x negateOperand_Group_content [of content c'] show ?thesis by simp
  qed (simp_all add: x)
next
  assume "negateRepeatedly (Suc n) (Group content) = Inr g"
  then show "\<exists>c. g = Group c \<and> \<not> isGroup c"
    by (rule negateRepeatedly_Group_shape)
qed simp

theorem negateOperand_Group_collapse_witness:
  "negateOperand (Expression NOT (Group (eq_b ''a'' (Single (Num 1)))) None)
     = Inr (Group (Expression NE (Key ''a'') (Some (Value (Single (Num 1))))))
   \<and> negateOperand (Group (Expression NOT (Group (eq_b ''a'' (Single (Num 1)))) None))
     = Inr (Group (Expression NE (Key ''a'') (Some (Value (Single (Num 1))))))
   \<and> negateRepeatedly (Suc 1) (Group (Expression NOT (Group (eq_b ''a'' (Single (Num 1)))) None))
     = Inr (Group (Expression EQ (Key ''a'') (Some (Value (Single (Num 1))))))
   \<and> \<not> isGroup (Expression NE (Key ''a'') (Some (Value (Single (Num 1)))))
   \<and> \<not> isGroup (Expression EQ (Key ''a'') (Some (Value (Single (Num 1)))))
   \<and> negateOperand (Key ''a'') = Inl CannotNegateOperand
   \<and> negateOperand (Group (Key ''a'')) = Inl CannotNegateOperand"
  using
    negateOperand_Group_collapse [of "Expression NOT (Group (eq_b ''a'' (Single (Num 1)))) None"
      "Group (Expression NE (Key ''a'') (Some (Value (Single (Num 1)))))" 1
      "Group (Expression EQ (Key ''a'') (Some (Value (Single (Num 1)))))" CannotNegateOperand]
    negateOperand_Group_collapse [of "Key ''a''" "Key ''a''" 0 "Key ''a''" CannotNegateOperand]
  by (simp add: eq_b_def)

text \<open>
  C8. Under the reference dialect \<^verbatim>\<open>in("a",[2015,2018])\<close> renders as
  \<^verbatim>\<open>'$.a' IN [2015,2018]\<close> and \<^verbatim>\<open>nin("a",[2015,2018])\<close> as \<^verbatim>\<open>'$.a' NOT IN [2015,2018]\<close>.
  In general an array value is written, after what the buffer holds, as the
  range-start delimiter, the texts of its elements with the separator between two
  consecutive ones and none after the last, and the range-end delimiter.
\<close>

theorem convertExpression_list_rendering:
  "convertExpression TestFilterExpressionConverter (in_b ''a'' (Array [Num 2015, Num 2018]))
     = Inr '''$.a' IN [2015,2018]''
   \<and> convertExpression TestFilterExpressionConverter (nin ''a'' (Array [Num 2015, Num 2018]))
     = Inr '''$.a' NOT IN [2015,2018]''
   \<and> buffer (convertValueToContext cv (Array xs) ctx)
     = buffer ctx @ [''[''] @ separated '','' (map (scalarText cv) xs) @ ['']'']"
proof (intro conjI)
  show "convertExpression TestFilterExpressionConverter (in_b ''a'' (Array [Num 2015, Num 2018]))
     = Inr '''$.a' IN [2015,2018]''"
    by code_simp
  show "convertExpression TestFilterExpressionConverter (nin ''a'' (Array [Num 2015, Num 2018]))
     = Inr '''$.a' NOT IN [2015,2018]''"
    by code_simp
  show "buffer (convertValueToContext cv (Array xs) ctx)
     = buffer ctx @ [''[''] @ separated '','' (map (scalarText cv) xs) @ ['']'']"
    by (cases cv) (simp_all add: convertValueLoop_buffer append_sb_def)
qed

text \<open>
  C9. On every tree built from \<^verbatim>\<open>AND\<close> and \<^verbatim>\<open>OR\<close> over leaf comparisons (no \<^verbatim>\<open>NOT\<close>, no
  group) \<^verbatim>\<open>negateOperand\<close> is an involution: it succeeds on the tree, and negating
  its result gives the tree back.
\<close>

theorem negateOperand_involution:
  "andOrTree t \<Longrightarrow> \<exists>t'. negateOperand t = Inr t' \<and> negateOperand t' = Inr t"
  using negateOperand_andOrTree by blast

theorem negateOperand_involution_witness:
  "andOrTree (and_b (eq_b ''name'' (Single (Str ''martin'')))
       (or_b (gte ''age'' (Single (Num 18))) (in_b ''year'' (Array [Num 2015, Num 2018]))))
   \<and> (\<exists>t'. negateOperand (and_b (eq_b ''name'' (Single (Str ''martin'')))
               (or_b (gte ''age'' (Single (Num 18)))
                     (in_b ''year'' (Array [Num 2015, Num 2018])))) = Inr t'
         \<and> negateOperand t' = Inr (and_b (eq_b ''name'' (Single (Str ''martin'')))
               (or_b (gte ''age'' (Single (Num 18)))
                     (in_b ''year'' (Array [Num 2015, Num 2018])))))"
proof -
  have tree: "andOrTree (and_b (eq_b ''name'' (Single (Str ''martin'')))
       (or_b (gte ''age'' (Single (Num 18))) (in_b ''year'' (Array [Num 2015, Num 2018]))))"
    by (simp add: builder_defs)
  from tree negateOperand_involution [OF tree] show ?thesis by blast
qed

text \<open>
  C10. A value wrapping the empty array is written as the two list delimiters with
  nothing between them and raises no error: under the default hooks the buffer gets
  \<^verbatim>\<open>[\<close> and \<^verbatim>\<open>]\<close> and reads \<^verbatim>\<open>[]\<close>; \<^verbatim>\<open>in("a", [])\<close> keeps its right operand, the empty
  array being truthy, and renders under the reference dialect as \<^verbatim>\<open>'$.a' IN []\<close>.
\<close>

theorem convertValueToContext_empty_array:
  "convertValueToContext BaseFilterExpressionConverter (Array []) newStringBuilder
     = \<lparr>buffer = [''['', '']'']\<rparr>
   \<and> toString (convertValueToContext BaseFilterExpressionConverter (Array []) newStringBuilder)
     = ''[]''
   \<and> convertOperandToContext cv (Value (Array [])) ctx
     = Inr (append_sb (append_sb ctx ''['') '']'')
   \<and> in_b ''a'' (Array []) = Expression IN (Key ''a'') (Some (Value (Array [])))
   \<and> convertExpression TestFilterExpressionConverter (in_b ''a'' (Array [])) = Inr '''$.a' IN []''"
proof (intro conjI)
  show "convertValueToContext BaseFilterExpressionConverter (Array []) newStringBuilder
     = \<lparr>buffer = [''['', '']'']\<rparr>"
    by (simp add: convertValueLoop_empty run_defs)
  show "toString (convertValueToContext BaseFilterExpressionConverter (Array []) newStringBuilder)
     = ''[]''"
    by (simp add: convertValueLoop_empty run_defs)
  show "convertOperandToContext cv (Value (Array [])) ctx
     = Inr (append_sb (append_sb ctx ''['') '']'')"
    by (cases cv) (simp_all add: convertValueLoop_empty)
  show "in_b ''a'' (Array []) = Expression IN (Key ''a'') (Some (Value (Array [])))"
    by (simp add: in_b_def)
  show "convertExpression TestFilterExpressionConverter (in_b ''a'' (Array [])) = Inr '''$.a' IN []''"
    by (simp add: convertValueLoop_empty run_defs in_b_def)
qed

end
